theory Spec2Isabelle
  imports Main "HOL-Library.Log_Nat"
begin

section \<open>JavaScript numbers\<close>

text \<open>
  The program computes with JavaScript Numbers: IEEE 754 binary64 values, with
  \<^verbatim>\<open>+\<close> rounding to nearest (ties to even), unary \<^verbatim>\<open>-\<close> flipping the sign
  and \<^verbatim>\<open><\<close> false as soon as one side is NaN. The classes below use only
  \<open>0\<close>, \<open>+\<close>, unary \<open>-\<close> and \<open><\<close>, so they are written over any type \<open>'a\<close>
  carrying these four operations, with no law assumed of them; \<open>double\<close>
  is the instance the program runs on.

  A finite double is its sign (\<open>True\<close> for negative) and its magnitude, a
  rational; \<open>Finite True 0\<close> is the negative zero.
\<close>

datatype double = NaN | Infinity bool | Finite bool rat

definition pow2 :: "int \<Rightarrow> rat" where
  "pow2 k = (if 0 \<le> k then 2 ^ nat k else 1 / 2 ^ nat (- k))"

text \<open>\<open>ilog2 q\<close> is the binary exponent of \<open>q > 0\<close>: \<open>2 ^ ilog2 q \<le> q < 2 ^ (ilog2 q + 1)\<close>.\<close>

definition ilog2 :: "rat \<Rightarrow> int" where
  "ilog2 q = (let (p, d) = quotient_of q; e = bitlen p - bitlen d
              in if pow2 e \<le> q then e else e - 1)"

definition round_half_even :: "rat \<Rightarrow> int" where
  "round_half_even r =
     (let f = \<lfloor>r\<rfloor>; d = r - of_int f
      in if d < 1 / 2 then f
         else if 1 / 2 < d then f + 1
         else if even f then f else f + 1)"

text \<open>
  Rounding a positive magnitude to 53 significant bits, with the exponent held at
  \<open>-1022\<close> in the subnormal range; \<open>None\<close> is overflow (the rounded magnitude
  reaches \<open>2 ^ 1024\<close>).
\<close>

definition round_mag :: "rat \<Rightarrow> rat option" where
  "round_mag q =
     (let e = max (ilog2 q) (- 1022);
          u = pow2 (e - 52);
          m = of_int (round_half_even (q / u)) * u
      in if 1024 \<le> ilog2 m then None else Some m)"

definition valof :: "bool \<Rightarrow> rat \<Rightarrow> rat" where
  "valof s m = (if s then - m else m)"

text \<open>The double nearest to the exact result \<open>r\<close>; \<open>z\<close> is the sign of an exact zero.\<close>

definition to_double :: "bool \<Rightarrow> rat \<Rightarrow> double" where
  "to_double z r =
     (if r = 0 then Finite z 0
      else case round_mag \<bar>r\<bar> of
             None \<Rightarrow> Infinity (r < 0)
           | Some m \<Rightarrow> Finite (r < 0) m)"

instantiation double :: "{zero, plus, uminus, ord}"
begin

definition zero_double :: double where
  "zero_double = Finite False 0"

fun plus_double :: "double \<Rightarrow> double \<Rightarrow> double" where
  "plus_double NaN _ = NaN"
| "plus_double _ NaN = NaN"
| "plus_double (Infinity s) (Infinity t) = (if s = t then Infinity s else NaN)"
| "plus_double (Infinity s) (Finite _ _) = Infinity s"
| "plus_double (Finite _ _) (Infinity t) = Infinity t"
| "plus_double (Finite s m) (Finite t n) = to_double (s \<and> t) (valof s m + valof t n)"

fun uminus_double :: "double \<Rightarrow> double" where
  "uminus_double NaN = NaN"
| "uminus_double (Infinity s) = Infinity (\<not> s)"
| "uminus_double (Finite s m) = Finite (\<not> s) m"

fun less_double :: "double \<Rightarrow> double \<Rightarrow> bool" where
  "less_double NaN _ = False"
| "less_double _ NaN = False"
| "less_double (Infinity s) (Infinity t) = (s \<and> \<not> t)"
| "less_double (Infinity s) (Finite _ _) = s"
| "less_double (Finite _ _) (Infinity t) = (\<not> t)"
| "less_double (Finite s m) (Finite t n) = (valof s m < valof t n)"

definition less_eq_double :: "double \<Rightarrow> double \<Rightarrow> bool" where
  "less_eq_double a b = (a < b \<or> (a \<noteq> NaN \<and> b \<noteq> NaN \<and> \<not> b < a))"

instance ..

end

text \<open>The Number written as the integer literal \<open>k\<close> in the source.\<close>

definition num :: "int \<Rightarrow> double" where
  "num k = to_double False (of_int k)"


section \<open>Colliders\<close>

datatype error = TypeError

text \<open>
  \<^verbatim>\<open>class Collider { constructor(type, x, y) {...}  get type() {...} }\<close>
  (the field \<^verbatim>\<open>_type\<close> is read through the getter \<^verbatim>\<open>type\<close> only).
\<close>

record 'a Collider =
  type :: string
  x :: 'a
  y :: 'a

text \<open>\<^verbatim>\<open>class RectangleCollider extends Collider\<close>.\<close>

record 'a RectangleCollider = "'a Collider" +
  width :: 'a
  height :: 'a

definition new_RectangleCollider :: "'a \<Rightarrow> 'a \<Rightarrow> 'a \<Rightarrow> 'a \<Rightarrow> 'a RectangleCollider" where
  "new_RectangleCollider x0 y0 w h =
     \<lparr>Collider.type = ''rectangle'', Collider.x = x0, Collider.y = y0,
      RectangleCollider.width = w, RectangleCollider.height = h\<rparr>"

definition translate :: "'a::plus RectangleCollider \<Rightarrow> 'a \<Rightarrow> 'a \<Rightarrow> 'a RectangleCollider" where
  "translate this dx dy =
     new_RectangleCollider (Collider.x this + dx) (Collider.y this + dy)
       (RectangleCollider.width this) (RectangleCollider.height this)"

definition get_top :: "'a RectangleCollider \<Rightarrow> 'a" where
  "get_top this = Collider.y this"

definition get_bottom :: "'a::plus RectangleCollider \<Rightarrow> 'a" where
  "get_bottom this = Collider.y this + RectangleCollider.height this"

definition get_left :: "'a RectangleCollider \<Rightarrow> 'a" where
  "get_left this = Collider.x this"

definition get_right :: "'a::plus RectangleCollider \<Rightarrow> 'a" where
  "get_right this = Collider.x this + RectangleCollider.width this"

text \<open>
  A collider object, as an actor holds it and as the detector receives it. The
  source has one class with a \<^verbatim>\<open>translate\<close> method, \<open>RectangleCollider\<close>;
  the detector dispatches on the \<^verbatim>\<open>type\<close> tag so that other subclasses of
  \<open>Collider\<close> can be added. \<open>Shape c t\<close> is an instance of such a subclass: the
  fields \<open>c\<close> of the base class and its own \<^verbatim>\<open>translate\<close> method \<open>t\<close>. It has
  none of the four edge getters of \<open>RectangleCollider\<close>, so reading one gives
  \<^verbatim>\<open>undefined\<close> (\<open>None\<close>).
\<close>

datatype 'a collider =
    Rectangle "'a RectangleCollider"
  | Shape "'a Collider" "'a \<Rightarrow> 'a \<Rightarrow> 'a collider"

fun collider_type :: "'a collider \<Rightarrow> string" where
  "collider_type (Rectangle r) = Collider.type r"
| "collider_type (Shape c t) = Collider.type c"

fun call_translate :: "'a::plus collider \<Rightarrow> 'a \<Rightarrow> 'a \<Rightarrow> 'a collider" where
  "call_translate (Rectangle r) dx dy = Rectangle (translate r dx dy)"
| "call_translate (Shape c t) dx dy = t dx dy"

fun prop_top :: "'a collider \<Rightarrow> 'a option" where
  "prop_top (Rectangle r) = Some (get_top r)"
| "prop_top (Shape c t) = None"

fun prop_bottom :: "'a::plus collider \<Rightarrow> 'a option" where
  "prop_bottom (Rectangle r) = Some (get_bottom r)"
| "prop_bottom (Shape c t) = None"

fun prop_left :: "'a collider \<Rightarrow> 'a option" where
  "prop_left (Rectangle r) = Some (get_left r)"
| "prop_left (Shape c t) = None"

fun prop_right :: "'a::plus collider \<Rightarrow> 'a option" where
  "prop_right (Rectangle r) = Some (get_right r)"
| "prop_right (Shape c t) = None"

text \<open>\<^verbatim>\<open>a < b\<close> on property values: \<^verbatim>\<open>undefined\<close> converts to NaN and compares false.\<close>

fun js_less :: "'a::ord option \<Rightarrow> 'a option \<Rightarrow> bool" where
  "js_less (Some a) (Some b) = (a < b)"
| "js_less _ _ = False"


section \<open>Actors\<close>

text \<open>
  \<^verbatim>\<open>class Actor\<close>: the constructor's option \<^verbatim>\<open>collider\<close> defaults to
  \<^verbatim>\<open>null\<close> (\<open>None\<close>). The field \<^verbatim>\<open>_collider\<close> is \<open>collider\<close> here.
\<close>

record 'a Actor =
  x :: 'a
  y :: 'a
  collider :: "'a collider option"


text \<open>
  \<^verbatim>\<open>get globalCollider() { return this._collider.translate(this.x, this.y) }\<close>:
  calling a method of \<^verbatim>\<open>null\<close> throws a TypeError.
\<close>

definition globalCollider :: "('a::plus, 'z) Actor_scheme \<Rightarrow> error + 'a collider" where
  "globalCollider this =
     (case Actor.collider this of
        None \<Rightarrow> Inl TypeError
      | Some c \<Rightarrow> Inr (call_translate c (Actor.x this) (Actor.y this)))"

text \<open>
  \<^verbatim>\<open>class RectangleActor extends Actor\<close>, with \<^verbatim>\<open>_color\<close>, \<^verbatim>\<open>_vx\<close> and
  \<^verbatim>\<open>_vy\<close> as \<open>color\<close>, \<open>vx\<close> and \<open>vy\<close>. The constructor draws the two
  velocities from \<^verbatim>\<open>Math.random()\<close>; here they are arguments.
\<close>

record 'a RectangleActor = "'a Actor" +
  width :: 'a
  height :: 'a
  color :: string
  vx :: 'a
  vy :: 'a

definition new_RectangleActor :: "'a::zero \<Rightarrow> 'a \<Rightarrow> 'a \<Rightarrow> 'a \<Rightarrow> 'a \<Rightarrow> 'a \<Rightarrow> 'a RectangleActor" where
  "new_RectangleActor x0 y0 w h vx0 vy0 =
     \<lparr>Actor.x = x0, Actor.y = y0,
      Actor.collider = Some (Rectangle (new_RectangleCollider 0 0 w h)),
      RectangleActor.width = w, RectangleActor.height = h,
      RectangleActor.color = ''rgb(0, 0, 0)'',
      RectangleActor.vx = vx0, RectangleActor.vy = vy0\<rparr>"

text \<open>The argument of \<^verbatim>\<open>update\<close>: \<^verbatim>\<open>{ world: { width: ..., height: ... } }\<close>.\<close>

record 'a Info_world =
  width :: 'a
  height :: 'a

record 'a Info =
  world :: "'a Info_world"

text \<open>
  \<^verbatim>\<open>RectangleActor.update(info)\<close>, one \<open>let\<close> per statement; \<open>this\<close> is
  returned as the call leaves it.
\<close>

definition update :: "'a::{zero, plus, uminus, ord} Info \<Rightarrow> 'a RectangleActor \<Rightarrow> 'a RectangleActor" where
  "update info this =
     (let this = this\<lparr>RectangleActor.color := ''rgb(0, 0, 0)''\<rparr>;
          this = this\<lparr>Actor.x := Actor.x this + RectangleActor.vx this\<rparr>;
          this = this\<lparr>Actor.y := Actor.y this + RectangleActor.vy this\<rparr>;
          this = (if Actor.x this < 0 \<or> Actor.x this > Info_world.width (world info)
                  then this\<lparr>RectangleActor.vx := - RectangleActor.vx this\<rparr> else this);
          this = (if Actor.y this < 0 \<or> Actor.y this > Info_world.height (world info)
                  then this\<lparr>RectangleActor.vy := - RectangleActor.vy this\<rparr> else this)
      in this)"

text \<open>\<^verbatim>\<open>RectangleActor.hit(other)\<close>: \<open>this\<close> after the call; \<open>other\<close> is not read.\<close>

definition hit :: "'a RectangleActor \<Rightarrow> 'a RectangleActor \<Rightarrow> 'a RectangleActor" where
  "hit this other = this\<lparr>RectangleActor.color := ''rgb(255, 0, 0)''\<rparr>"


section \<open>The collision detector\<close>

definition detectRectangleCollision :: "'a::{plus, ord} collider \<Rightarrow> 'a collider \<Rightarrow> bool" where
  "detectRectangleCollision rect1 rect2 =
     (let horizontal = (js_less (prop_left rect2) (prop_right rect1)
                        \<and> js_less (prop_left rect1) (prop_right rect2));
          vertical = (js_less (prop_top rect2) (prop_bottom rect1)
                      \<and> js_less (prop_top rect1) (prop_bottom rect2))
      in horizontal \<and> vertical)"

definition detectCollision ::
    "('a::{plus, ord}, 'y) Actor_scheme \<Rightarrow> ('a, 'z) Actor_scheme \<Rightarrow> error + bool" where
  "detectCollision actor1 actor2 =
     (case globalCollider actor1 of
        Inl e \<Rightarrow> Inl e
      | Inr c1 \<Rightarrow>
          (case globalCollider actor2 of
             Inl e \<Rightarrow> Inl e
           | Inr c2 \<Rightarrow>
               if collider_type c1 = ''rectangle'' \<and> collider_type c2 = ''rectangle''
               then Inr (detectRectangleCollision c1 c2)
               else Inr False))"


section \<open>The world\<close>

text \<open>
  \<^verbatim>\<open>class World\<close> with \<^verbatim>\<open>_width\<close>, \<^verbatim>\<open>_height\<close> and \<^verbatim>\<open>_actors\<close>; the
  detector has no field. The actors of a world are \<open>RectangleActor\<close>s, the one
  class of the source that implements \<^verbatim>\<open>update\<close> and \<^verbatim>\<open>hit\<close>, and the
  array holds one object per index.
\<close>

record 'a World =
  width :: 'a
  height :: 'a
  actors :: "'a RectangleActor list"

definition new_World :: "'a \<Rightarrow> 'a \<Rightarrow> 'a World" where
  "new_World w h = \<lparr>World.width = w, World.height = h, World.actors = []\<rparr>"

definition addActor :: "'a World \<Rightarrow> 'a RectangleActor \<Rightarrow> 'a World" where
  "addActor this actor = this\<lparr>World.actors := World.actors this @ [actor]\<rparr>"

text \<open>
  The calls a sweep makes, in the order it makes them: \<open>Detect i j a1 a2 b\<close> is
  \<^verbatim>\<open>detectCollision(a1, a2)\<close> on the actors at indices \<open>i\<close> and \<open>j\<close>, as
  they are at the call, returning \<open>b\<close>; \<open>Hit i j\<close> is
  \<^verbatim>\<open>_actors[i].hit(_actors[j])\<close>.
\<close>

datatype 'a event =
    Detect nat nat "'a RectangleActor" "'a RectangleActor" bool
  | Hit nat nat

type_synonym 'a sweep = "'a RectangleActor list \<times> 'a event list"

text \<open>
  The body of the inner loop of \<^verbatim>\<open>_hitTest\<close>. Reading the array out of range
  gives \<^verbatim>\<open>undefined\<close>, whose \<^verbatim>\<open>globalCollider\<close> throws.
\<close>

definition hitTest_body :: "nat \<Rightarrow> nat \<Rightarrow> 'a::{plus, ord} sweep \<Rightarrow> error + 'a sweep" where
  "hitTest_body i j s =
     (let (as, tr) = s in
      if i < length as \<and> j < length as then
        let a1 = as ! i; a2 = as ! j in
        case detectCollision a1 a2 of
          Inl e \<Rightarrow> Inl e
        | Inr b \<Rightarrow>
            if b then
              let as1 = as[i := hit (as ! i) (as ! j)];
                  as2 = as1[j := hit (as1 ! j) (as1 ! i)]
              in Inr (as2, tr @ [Detect i j a1 a2 b, Hit i j, Hit j i])
            else Inr (as, tr @ [Detect i j a1 a2 b])
      else Inl TypeError)"

text \<open>\<^verbatim>\<open>for (let j = ...; j < length; j++)\<close>.\<close>

function hitTest_inner :: "nat \<Rightarrow> nat \<Rightarrow> nat \<Rightarrow> 'a::{plus, ord} sweep \<Rightarrow> error + 'a sweep" where
  "hitTest_inner len i j s =
     (if j < len then
        (case hitTest_body i j s of
           Inl e \<Rightarrow> Inl e
         | Inr s' \<Rightarrow> hitTest_inner len i (j + 1) s')
      else Inr s)"
  by pat_completeness auto
termination
  by (relation "measure (\<lambda>(len, i, j, s). len - j)") auto

text \<open>\<^verbatim>\<open>for (let i = ...; i < length - 1; i++)\<close>; \<open>length - 1\<close> is \<open>-1\<close> on the empty array.\<close>

function hitTest_outer :: "nat \<Rightarrow> nat \<Rightarrow> 'a::{plus, ord} sweep \<Rightarrow> error + 'a sweep" where
  "hitTest_outer len i s =
     (if int i < int len - 1 then
        (case hitTest_inner len i (i + 1) s of
           Inl e \<Rightarrow> Inl e
         | Inr s' \<Rightarrow> hitTest_outer len (i + 1) s')
      else Inr s)"
  by pat_completeness auto
termination
  by (relation "measure (\<lambda>(len, i, s). len - i)") auto

text \<open>\<^verbatim>\<open>_hitTest()\<close>: the world after the sweep and the calls made.\<close>

definition hitTest :: "'a::{plus, ord} World \<Rightarrow> error + ('a World \<times> 'a event list)" where
  "hitTest this =
     (let len = length (World.actors this) in
      case hitTest_outer len 0 (World.actors this, []) of
        Inl e \<Rightarrow> Inl e
      | Inr (as, tr) \<Rightarrow> Inr (this\<lparr>World.actors := as\<rparr>, tr))"

definition World_info :: "'a World \<Rightarrow> 'a Info" where
  "World_info this =
     \<lparr>world = \<lparr>Info_world.width = World.width this, Info_world.height = World.height this\<rparr>\<rparr>"

text \<open>\<^verbatim>\<open>World.update()\<close>: \<^verbatim>\<open>forEach\<close> over the actors, then the sweep.\<close>

definition World_update ::
    "'a::{zero, plus, uminus, ord} World \<Rightarrow> error + ('a World \<times> 'a event list)" where
  "World_update this =
     (let info = World_info this;
          this = this\<lparr>World.actors := map (update info) (World.actors this)\<rparr>
      in hitTest this)"

declare hitTest_inner.simps [simp del]
declare hitTest_outer.simps [simp del]


section \<open>Reading the calls of a sweep\<close>

text \<open>The index pairs handed to the detector, in call order.\<close>

fun detect_calls :: "'a event list \<Rightarrow> (nat \<times> nat) list" where
  "detect_calls [] = []"
| "detect_calls (Detect i j a1 a2 b # es) = (i, j) # detect_calls es"
| "detect_calls (Hit i j # es) = detect_calls es"

text \<open>The indices of the actors whose \<^verbatim>\<open>hit\<close> was called.\<close>

fun hit_receivers :: "'a event list \<Rightarrow> nat list" where
  "hit_receivers [] = []"
| "hit_receivers (Detect i j a1 a2 b # es) = hit_receivers es"
| "hit_receivers (Hit i j # es) = i # hit_receivers es"

text \<open>
  The shape of the calls: a detector call on \<open>(i, j)\<close> that returned true is followed at
  once by \<open>Hit i j\<close> and then \<open>Hit j i\<close>; one that returned false is followed by the
  next detector call; no other \<open>Hit\<close> occurs.
\<close>

fun hits_follow :: "'a event list \<Rightarrow> bool" where
  "hits_follow [] = True"
| "hits_follow (Detect i j a1 a2 True # Hit i' j' # Hit j'' i'' # es) =
     (i' = i \<and> j' = j \<and> j'' = j \<and> i'' = i \<and> hits_follow es)"
| "hits_follow (Detect i j a1 a2 False # es) = hits_follow es"
| "hits_follow _ = False"


text \<open>All pairs \<open>(i, j)\<close> with \<open>i < j < n\<close>, by rising \<open>i\<close> and then rising \<open>j\<close>.\<close>

definition index_pairs :: "nat \<Rightarrow> (nat \<times> nat) list" where
  "index_pairs n = concat (map (\<lambda>i. map (Pair i) [Suc i..<n]) [0..<n])"

definition same_place :: "'a RectangleActor \<Rightarrow> 'a RectangleActor \<Rightarrow> bool" where
  "same_place a b \<longleftrightarrow>
     Actor.x a = Actor.x b \<and> Actor.y a = Actor.y b \<and> Actor.collider a = Actor.collider b"

text \<open>
  A detector call of a sweep started on the array \<open>as0\<close> receives the actors at its two
  indices, placed as in \<open>as0\<close>.
\<close>

fun reads :: "'a::{plus, ord} RectangleActor list \<Rightarrow> 'a event \<Rightarrow> bool" where
  "reads as0 (Detect i j a1 a2 b) =
     (i < length as0 \<and> j < length as0 \<and> same_place a1 (as0 ! i) \<and> same_place a2 (as0 ! j)
      \<and> detectCollision a1 a2 = Inr b)"
| "reads as0 (Hit i j) = True"

text \<open>
  The loop invariant of the sweep started on \<open>as0\<close>: an actor is as it was in \<open>as0\<close>,
  after \<^verbatim>\<open>hit\<close> if it has received one.
\<close>

definition sweep_inv :: "'a::{plus, ord} RectangleActor list \<Rightarrow> 'a sweep \<Rightarrow> bool" where
  "sweep_inv as0 s \<longleftrightarrow>
     length (fst s) = length as0
     \<and> (\<forall>k < length as0.
           fst s ! k = (if k \<in> set (hit_receivers (snd s)) then hit (as0 ! k) (as0 ! k)
                        else as0 ! k))
     \<and> (\<forall>e \<in> set (snd s). reads as0 e)
     \<and> hits_follow (snd s)"



section \<open>Example objects\<close>

text \<open>
  A 500 by 500 world of three 10 by 10 actors: \<open>actorA\<close> moves one to the right and
  then overlaps \<open>actorB\<close>; \<open>actorC\<close> is far from both.
\<close>

definition actorA :: "double RectangleActor" where
  "actorA = new_RectangleActor 0 0 (num 10) (num 10) (num 1) 0"

definition actorB :: "double RectangleActor" where
  "actorB = new_RectangleActor (num 5) (num 5) (num 10) (num 10) 0 0"

definition actorC :: "double RectangleActor" where
  "actorC = new_RectangleActor (num 100) (num 100) (num 10) (num 10) 0 0"

definition world3 :: "double World" where
  "world3 = addActor (addActor (addActor (new_World (num 500) (num 500)) actorA) actorB) actorC"

definition movedA :: "double RectangleActor" where
  "movedA = update (World_info world3) actorA"

definition movedB :: "double RectangleActor" where
  "movedB = update (World_info world3) actorB"

definition movedC :: "double RectangleActor" where
  "movedC = update (World_info world3) actorC"

definition trace3 :: "double event list" where
  "trace3 = [Detect 0 1 movedA movedB True, Hit 0 1, Hit 1 0,
             Detect 0 2 (hit movedA movedB) movedC False,
             Detect 1 2 (hit movedB movedA) movedC False]"

text \<open>Two 10 by 10 actors at \<open>(0, 0)\<close> and \<open>(10, 0)\<close>: they share the edge \<open>x = 10\<close>.\<close>

definition touchL :: "double RectangleActor" where
  "touchL = new_RectangleActor 0 0 (num 10) (num 10) 0 0"

definition touchR :: "double RectangleActor" where
  "touchR = new_RectangleActor (num 10) 0 (num 10) (num 10) 0 0"

text \<open>An actor at \<open>x = -1\<close> moving left by 3 a step, and the \<open>info\<close> of a 500 by 500 world.\<close>

definition leaving :: "double RectangleActor" where
  "leaving = new_RectangleActor (num (- 1)) 0 (num 10) (num 10) (num (- 3)) 0"

definition info500 :: "double Info" where
  "info500 = \<lparr>world = \<lparr>Info_world.width = num 500, Info_world.height = num 500\<rparr>\<rparr>"



text \<open>A collider whose \<open>x\<close> is \<open>2 ^ 53\<close>, where the doubles are two apart.\<close>

definition far_box :: "double RectangleCollider" where
  "far_box = new_RectangleCollider (num 9007199254740992) 0 (num 10) (num 10)"

definition near_box :: "double RectangleCollider" where
  "near_box = new_RectangleCollider 0 0 (num 10) (num 10)"


section \<open>Arithmetic on the example numbers\<close>

lemma double_sums:
  "(0::double) + 0 = 0"
  "0 + num 1 = num 1"
  "0 + num 2 = num 2"
  "0 + num 5 = num 5"
  "0 + num 10 = num 10"
  "0 + num 100 = num 100"
  "num 5 + 0 = num 5"
  "num 100 + 0 = num 100"
  "num 1 + num 1 = num 2"
  "num 1 + num 10 = num 11"
  "num 5 + num 10 = num 15"
  "num 10 + num 10 = num 20"
  "num 100 + num 10 = num 110"
  "num (- 1) + num (- 3) = num (- 4)"
  "- num (- 3) = num 3"
  by code_simp+

lemma double_less:
  "((0::double) < 0) = False"
  "(num 1 < 0) = False"
  "(num 5 < 0) = False"
  "(num 100 < 0) = False"
  "(num 500 < 0) = False"
  "(num (- 4) < 0) = True"
  "(num 500 < num 1) = False"
  "(num 500 < num 5) = False"
  "(num 500 < num 100) = False"
  "(num 5 < num 11) = True"
  "(num 1 < num 15) = True"
  "(num 5 < num 10) = True"
  "(0 < num 15) = True"
  "(num 10 < num 10) = False"
  "(num 100 < num 10) = False"
  "(num 100 < num 11) = False"
  "(num 100 < num 15) = False"
  by code_simp+

text \<open>At \<open>2 ^ 53\<close> adding one is lost to rounding (a tie, resolved to the even neighbour).\<close>

lemma double_sums_far:
  "num 9007199254740992 + num 1 = num 9007199254740992"
  "num 9007199254740992 + num 2 = num 9007199254740994"
  "num 9007199254740992 \<noteq> num 9007199254740994"
  by code_simp+


section \<open>The collision sweep\<close>

subsection \<open>The loop body\<close>

lemma detect_calls_append: "detect_calls (xs @ ys) = detect_calls xs @ detect_calls ys"
  by (induction xs rule: detect_calls.induct) simp_all

lemma hit_receivers_append: "hit_receivers (xs @ ys) = hit_receivers xs @ hit_receivers ys"
  by (induction xs rule: hit_receivers.induct) simp_all

lemma hits_follow_append: "hits_follow xs \<Longrightarrow> hits_follow ys \<Longrightarrow> hits_follow (xs @ ys)"
  by (induction xs rule: hits_follow.induct) auto

lemma hitTest_body_unfold:
  "hitTest_body i j (as, tr) =
     (if i < length as \<and> j < length as then
        (case detectCollision (as ! i) (as ! j) of
           Inl e \<Rightarrow> Inl e
         | Inr b \<Rightarrow>
             if b then Inr (as[i := hit (as ! i) (as ! j),
                               j := hit (as[i := hit (as ! i) (as ! j)] ! j)
                                        (as[i := hit (as ! i) (as ! j)] ! i)],
                            tr @ [Detect i j (as ! i) (as ! j) b, Hit i j, Hit j i])
             else Inr (as, tr @ [Detect i j (as ! i) (as ! j) b]))
      else Inl TypeError)"
  by (simp add: hitTest_body_def Let_def split: sum.splits)

lemma hitTest_body_Inr:
  assumes "hitTest_body i j (as, tr) = Inr (as', tr')"
  shows "\<exists>b. i < length as \<and> j < length as
           \<and> detectCollision (as ! i) (as ! j) = Inr b
           \<and> tr' = tr @ Detect i j (as ! i) (as ! j) b # (if b then [Hit i j, Hit j i] else [])
           \<and> length as' = length as
           \<and> (\<forall>k < length as.
                 as' ! k = (if b \<and> (k = i \<or> k = j) then hit (as ! k) (as ! k) else as ! k))"
proof -
  from assms have r: "i < length as" "j < length as"
    by (simp_all add: hitTest_body_unfold split: if_splits)
  with assms obtain b where d: "detectCollision (as ! i) (as ! j) = Inr b"
    by (auto simp add: hitTest_body_unfold split: sum.splits)
  show ?thesis
  proof (cases b)
    case True
    with assms r d
    have as': "as' = as[i := hit (as ! i) (as ! j),
                        j := hit (as[i := hit (as ! i) (as ! j)] ! j)
                                 (as[i := hit (as ! i) (as ! j)] ! i)]"
      and tr': "tr' = tr @ [Detect i j (as ! i) (as ! j) b, Hit i j, Hit j i]"
      by (simp_all add: hitTest_body_unfold)
    have "as' ! k = (if b \<and> (k = i \<or> k = j) then hit (as ! k) (as ! k) else as ! k)"
      if "k < length as" for k
      using that r True by (simp add: as' nth_list_update hit_def)
    with r d as' tr' True show ?thesis
      by (intro exI[of _ b]) simp
  next
    case False
    with assms r d have "as' = as" "tr' = tr @ [Detect i j (as ! i) (as ! j) b]"
      by (auto simp add: hitTest_body_unfold)
    with r d False show ?thesis
      by (intro exI[of _ b]) simp
  qed
qed

subsection \<open>Invariants of the two loops\<close>

lemma hitTest_inner_invariant:
  assumes "hitTest_inner len i j s = Inr s'" and "P s"
    and "\<And>i j s s'. P s \<Longrightarrow> hitTest_body i j s = Inr s' \<Longrightarrow> P s'"
  shows "P s'"
  using assms(1,2)
proof (induction len i j s rule: hitTest_inner.induct)
  case (1 len i j s)
  show ?case
  proof (cases "j < len")
    case True
    with "1.prems"(1) obtain s1 where b: "hitTest_body i j s = Inr s1"
      and r: "hitTest_inner len i (j + 1) s1 = Inr s'"
      by (subst (asm) hitTest_inner.simps) (auto split: sum.splits)
    from assms(3)[OF "1.prems"(2) b] have "P s1" .
    with "1.IH"[OF True b r] show ?thesis .
  next
    case False
    with "1.prems" show ?thesis by (subst (asm) hitTest_inner.simps) simp
  qed
qed

lemma hitTest_outer_invariant:
  assumes "hitTest_outer len i s = Inr s'" and "P s"
    and "\<And>i j s s'. P s \<Longrightarrow> hitTest_body i j s = Inr s' \<Longrightarrow> P s'"
  shows "P s'"
  using assms(1,2)
proof (induction len i s rule: hitTest_outer.induct)
  case (1 len i s)
  show ?case
  proof (cases "int i < int len - 1")
    case True
    with "1.prems"(1) obtain s1 where b: "hitTest_inner len i (i + 1) s = Inr s1"
      and r: "hitTest_outer len (i + 1) s1 = Inr s'"
      by (subst (asm) hitTest_outer.simps) (auto split: sum.splits)
    have "P s1"
      by (rule hitTest_inner_invariant[where P = P, OF b "1.prems"(2)]) (rule assms(3))
    with "1.IH"[OF True b r] show ?thesis .
  next
    case False
    with "1.prems" show ?thesis by (subst (asm) hitTest_outer.simps) simp
  qed
qed

subsection \<open>The sweep returns\<close>


lemma hit_fields [simp]:
  "Actor.x (hit a other) = Actor.x a"
  "Actor.y (hit a other) = Actor.y a"
  "Actor.collider (hit a other) = Actor.collider a"
  "RectangleActor.width (hit a other) = RectangleActor.width a"
  "RectangleActor.height (hit a other) = RectangleActor.height a"
  "RectangleActor.vx (hit a other) = RectangleActor.vx a"
  "RectangleActor.vy (hit a other) = RectangleActor.vy a"
  "RectangleActor.color (hit a other) = ''rgb(255, 0, 0)''"
  by (simp_all add: hit_def)




subsection \<open>The order of the detector calls\<close>

lemma hitTest_inner_calls:
  assumes "hitTest_inner len i j s = Inr s'"
  shows "detect_calls (snd s') = detect_calls (snd s) @ map (Pair i) [j..<len]"
  using assms
proof (induction len i j s rule: hitTest_inner.induct)
  case (1 len i j s)
  show ?case
  proof (cases "j < len")
    case True
    with "1.prems" obtain s1 where b: "hitTest_body i j s = Inr s1"
      and r: "hitTest_inner len i (j + 1) s1 = Inr s'"
      by (subst (asm) hitTest_inner.simps) (auto split: sum.splits)
    obtain as tr as1 tr1 where s: "s = (as, tr)" and s1: "s1 = (as1, tr1)"
      by (cases s, cases s1)
    from hitTest_body_Inr[of i j as tr as1 tr1] b s s1 obtain c
      where "tr1 = tr @ Detect i j (as ! i) (as ! j) c # (if c then [Hit i j, Hit j i] else [])"
      by blast
    then have "detect_calls tr1 = detect_calls tr @ [(i, j)]"
      by (simp add: detect_calls_append)
    with "1.IH"[OF True b r] s s1 True show ?thesis
      by (simp add: upt_conv_Cons)
  next
    case False
    with "1.prems" show ?thesis
      by (subst (asm) hitTest_inner.simps) simp
  qed
qed

lemma hitTest_outer_calls:
  assumes "hitTest_outer len i s = Inr s'"
  shows "detect_calls (snd s') =
           detect_calls (snd s) @ concat (map (\<lambda>i. map (Pair i) [Suc i..<len]) [i..<len])"
  using assms
proof (induction len i s rule: hitTest_outer.induct)
  case (1 len i s)
  show ?case
  proof (cases "int i < int len - 1")
    case True
    with "1.prems" obtain s1 where b: "hitTest_inner len i (i + 1) s = Inr s1"
      and r: "hitTest_outer len (i + 1) s1 = Inr s'"
      by (subst (asm) hitTest_outer.simps) (auto split: sum.splits)
    from True have "i < len" by simp
    then have "[i..<len] = i # [Suc i..<len]"
      by (rule upt_conv_Cons)
    with "1.IH"[OF True b r] hitTest_inner_calls[OF b] show ?thesis
      by simp
  next
    case False
    then have "len \<le> Suc i" by simp
    then have "concat (map (\<lambda>i. map (Pair i) [Suc i..<len]) [i..<len]) = []"
      by (cases "i < len") (simp_all add: upt_conv_Cons)
    moreover from False "1.prems" have "s' = s"
      by (subst (asm) hitTest_outer.simps) simp
    ultimately show ?thesis by simp
  qed
qed





subsection \<open>The sweep as a whole\<close>

lemma sweep_inv_init: "sweep_inv as0 (as0, [])"
  by (simp add: sweep_inv_def)

lemma same_place_hit: "same_place (hit a other) a"
  by (simp add: same_place_def)

lemma same_place_refl: "same_place a a"
  by (simp add: same_place_def)

lemma sweep_inv_body:
  assumes "sweep_inv as0 s" and "hitTest_body i j s = Inr s'"
  shows "sweep_inv as0 s'"
proof -
  obtain as tr as' tr' where s: "s = (as, tr)" and s': "s' = (as', tr')"
    by (cases s, cases s')
  from assms(1) s have len: "length as = length as0"
    and nth: "\<And>k. k < length as0 \<Longrightarrow>
               as ! k = (if k \<in> set (hit_receivers tr) then hit (as0 ! k) (as0 ! k) else as0 ! k)"
    and rd: "\<And>e. e \<in> set tr \<Longrightarrow> reads as0 e"
    and hf: "hits_follow tr"
    by (simp_all add: sweep_inv_def)
  from hitTest_body_Inr[of i j as tr as' tr'] assms(2) s s'
  obtain b where i: "i < length as" and j: "j < length as"
    and d: "detectCollision (as ! i) (as ! j) = Inr b"
    and tr': "tr' = tr @ Detect i j (as ! i) (as ! j) b # (if b then [Hit i j, Hit j i] else [])"
    and len': "length as' = length as"
    and nth': "\<And>k. k < length as \<Longrightarrow>
                as' ! k = (if b \<and> (k = i \<or> k = j) then hit (as ! k) (as ! k) else as ! k)"
    by blast
  have rc: "set (hit_receivers tr') = set (hit_receivers tr) \<union> (if b then {i, j} else {})"
    by (auto simp add: tr' hit_receivers_append)
  have a: "as' ! k = (if k \<in> set (hit_receivers tr') then hit (as0 ! k) (as0 ! k) else as0 ! k)"
    if "k < length as0" for k
    using that len by (simp add: nth' nth rc hit_def)
  have sp: "same_place (as ! k) (as0 ! k)" if "k < length as0" for k
    using that by (simp add: nth same_place_hit same_place_refl)
  have "reads as0 (Detect i j (as ! i) (as ! j) b)"
    using i j d len sp by simp
  then have r: "reads as0 e" if "e \<in> set tr'" for e
    using that rd by (auto simp add: tr' split: if_splits)
  have "hits_follow (Detect i j (as ! i) (as ! j) b # (if b then [Hit i j, Hit j i] else []))"
    by (cases b) simp_all
  with hf have h: "hits_follow tr'"
    unfolding tr' by (rule hits_follow_append)
  from len len' a r h show ?thesis
    by (simp add: sweep_inv_def s')
qed

lemma hitTest_Inr:
  assumes "hitTest w = Inr (w', tr)"
  shows "w' = w\<lparr>World.actors := World.actors w'\<rparr>
         \<and> sweep_inv (World.actors w) (World.actors w', tr)
         \<and> detect_calls tr = index_pairs (length (World.actors w))"
proof -
  from assms obtain as where
    o: "hitTest_outer (length (World.actors w)) 0 (World.actors w, []) = Inr (as, tr)"
    and w': "w' = w\<lparr>World.actors := as\<rparr>"
    by (auto simp add: hitTest_def Let_def split: sum.splits)
  have "sweep_inv (World.actors w) (as, tr)"
    by (rule hitTest_outer_invariant[where P = "sweep_inv (World.actors w)", OF o sweep_inv_init])
       (rule sweep_inv_body)
  moreover from hitTest_outer_calls[OF o]
  have "detect_calls tr = index_pairs (length (World.actors w))"
    by (simp add: index_pairs_def)
  ultimately show ?thesis
    using w' by simp
qed



lemma update_fields:
  "Actor.x (update info a) = Actor.x a + RectangleActor.vx a"
  "Actor.y (update info a) = Actor.y a + RectangleActor.vy a"
  "Actor.collider (update info a) = Actor.collider a"
  "RectangleActor.width (update info a) = RectangleActor.width a"
  "RectangleActor.height (update info a) = RectangleActor.height a"
  "RectangleActor.color (update info a) = ''rgb(0, 0, 0)''"
  by (simp_all add: update_def Let_def)

lemma World_update_unfold:
  "World_update w = hitTest (w\<lparr>World.actors := map (update (World_info w)) (World.actors w)\<rparr>)"
  by (simp add: World_update_def Let_def)



section \<open>Properties of the specification\<close>

subsection \<open>Colliders\<close>


text \<open>
  C9, as stated: \<open>box.translate(a, b).translate(c, d)\<close> equals
  \<open>box.translate(a + c, b + d)\<close> for all numbers. On doubles it fails: with
  \<open>x = 2 ^ 53\<close>, translating twice by one leaves \<open>x\<close> where it is, and translating
  once by \<open>1 + 1\<close> moves it by two.
\<close>

theorem translate_compose_counterexample:
  "translate (translate far_box (num 1) 0) (num 1) 0 \<noteq> translate far_box (num 1 + num 1) (0 + 0)"
  by (simp add: translate_def new_RectangleCollider_def far_box_def double_sums double_sums_far)

text \<open>
  C9, amended: the two colliders are equal exactly when the additions on \<open>x\<close> and on \<open>y\<close>
  associate at these operands (as they do on all operands in exact arithmetic); width,
  height and tag agree in any case.
\<close>

theorem translate_compose_iff:
  "(translate (translate box a b) c d = translate box (a + c) (b + d)
    \<longleftrightarrow> (Collider.x box + a) + c = Collider.x box + (a + c)
        \<and> (Collider.y box + b) + d = Collider.y box + (b + d))
   \<and> RectangleCollider.width (translate (translate box a b) c d)
       = RectangleCollider.width (translate box (a + c) (b + d))
   \<and> RectangleCollider.height (translate (translate box a b) c d)
       = RectangleCollider.height (translate box (a + c) (b + d))
   \<and> Collider.type (translate (translate box a b) c d)
       = Collider.type (translate box (a + c) (b + d))"
  by (auto simp add: translate_def new_RectangleCollider_def)

theorem translate_compose_iff_witness:
  "translate (translate near_box (num 1) 0) (num 1) 0 = translate near_box (num 1 + num 1) (0 + 0)
   \<and> (Collider.x near_box + num 1) + num 1 = Collider.x near_box + (num 1 + num 1)
   \<and> (Collider.y near_box + 0) + 0 = Collider.y near_box + (0 + 0)"
  using translate_compose_iff[of near_box "num 1" 0 "num 1" 0]
  by (simp add: near_box_def new_RectangleCollider_def double_sums)

text \<open>In exact arithmetic, where addition is associative, translation composes.\<close>

lemma translate_compose_exact:
  fixes box :: "'a::semigroup_add RectangleCollider"
  shows "translate (translate box a b) c d = translate box (a + c) (b + d)"
  by (simp add: translate_def new_RectangleCollider_def add.assoc)

subsection \<open>Actors\<close>

text \<open>
  C6. An actor that has a collider \<open>c\<close> answers \<open>globalCollider\<close> with
  \<open>c.translate(x, y)\<close> at its current \<open>x\<close> and \<open>y\<close>: after the position is assigned,
  the getter answers with the translation to the new position, so nothing is cached.
\<close>

theorem globalCollider_translate:
  assumes "Actor.collider a = Some c"
  shows "globalCollider a = Inr (call_translate c (Actor.x a) (Actor.y a))
         \<and> globalCollider (a\<lparr>Actor.x := x', Actor.y := y'\<rparr>) = Inr (call_translate c x' y')"
  using assms by (simp add: globalCollider_def)

theorem globalCollider_translate_witness:
  "Actor.collider actorB = Some (Rectangle near_box)
   \<and> globalCollider actorB = Inr (Rectangle (translate near_box (num 5) (num 5)))
   \<and> globalCollider (actorB\<lparr>Actor.x := num 100, Actor.y := 0\<rparr>)
       = Inr (Rectangle (translate near_box (num 100) 0))"
proof -
  have c: "Actor.collider actorB = Some (Rectangle near_box)"
    by (simp add: actorB_def new_RectangleActor_def near_box_def)
  from globalCollider_translate[where x' = "num 100" and y' = 0, OF c] c show ?thesis
    by (simp add: actorB_def new_RectangleActor_def)
qed

text \<open>
  C2. \<open>update\<close> adds the velocity to the position on each axis and then, on each axis
  by itself, negates the velocity exactly when the new \<open>x\<close> (or \<open>y\<close>) is below zero or
  above the world's width (or height); the test reads the position, not the far edge.
  The colour is reset and nothing else changes.
\<close>

theorem update_moves_then_reflects:
  "update info a =
     a\<lparr>Actor.x := Actor.x a + RectangleActor.vx a,
       Actor.y := Actor.y a + RectangleActor.vy a,
       RectangleActor.color := ''rgb(0, 0, 0)'',
       RectangleActor.vx :=
         (if Actor.x a + RectangleActor.vx a < 0
             \<or> Actor.x a + RectangleActor.vx a > Info_world.width (world info)
          then - RectangleActor.vx a else RectangleActor.vx a),
       RectangleActor.vy :=
         (if Actor.y a + RectangleActor.vy a < 0
             \<or> Actor.y a + RectangleActor.vy a > Info_world.height (world info)
          then - RectangleActor.vy a else RectangleActor.vy a)\<rparr>"
  unfolding update_def Let_def by simp

text \<open>The actor at \<open>x = -1\<close> with \<open>vx = -3\<close> in the world of width 500.\<close>

theorem update_moves_then_reflects_witness:
  "Actor.x (update info500 leaving) = num (- 4)
   \<and> RectangleActor.vx (update info500 leaving) = num 3
   \<and> Actor.y (update info500 leaving) = 0
   \<and> RectangleActor.vy (update info500 leaving) = 0"
  using update_moves_then_reflects[of info500 leaving]
  by (simp add: leaving_def info500_def new_RectangleActor_def double_sums double_less)

subsection \<open>The detector\<close>

text \<open>
  C1. When the global colliders of the two actors are rectangles \<open>rect1\<close> and \<open>rect2\<close>
  (instances of \<open>RectangleCollider\<close> tagged \<^verbatim>\<open>rectangle\<close>), \<open>detectCollision\<close>
  returns true if and only if \<open>rect2.left < rect1.right\<close>, \<open>rect1.left < rect2.right\<close>,
  \<open>rect2.top < rect1.bottom\<close> and \<open>rect1.top < rect2.bottom\<close>, all four strict.
\<close>

theorem detect_rectangles_iff:
  assumes "globalCollider a1 = Inr (Rectangle rect1)" and "Collider.type rect1 = ''rectangle''"
    and "globalCollider a2 = Inr (Rectangle rect2)" and "Collider.type rect2 = ''rectangle''"
  shows "detectCollision a1 a2 =
           Inr (get_left rect2 < get_right rect1 \<and> get_left rect1 < get_right rect2
                \<and> get_top rect2 < get_bottom rect1 \<and> get_top rect1 < get_bottom rect2)"
  using assms by (simp add: detectCollision_def detectRectangleCollision_def)

text \<open>The two 10 by 10 rectangles at \<open>(0, 0)\<close> and \<open>(10, 0)\<close> do not collide.\<close>

theorem detect_rectangles_iff_witness:
  "globalCollider touchL = Inr (Rectangle near_box)
   \<and> Collider.type near_box = ''rectangle''
   \<and> globalCollider touchR = Inr (Rectangle (new_RectangleCollider (num 10) 0 (num 10) (num 10)))
   \<and> Collider.type (new_RectangleCollider (num 10) 0 (num 10) (num 10)) = ''rectangle''
   \<and> detectCollision touchL touchR = Inr False"
proof -
  let ?r = "new_RectangleCollider (num 10) 0 (num 10) (num 10)"
  have g1: "globalCollider touchL = Inr (Rectangle near_box)"
    by (simp add: globalCollider_def touchL_def new_RectangleActor_def translate_def
          new_RectangleCollider_def near_box_def double_sums)
  have t1: "Collider.type near_box = ''rectangle''"
    by (simp add: near_box_def new_RectangleCollider_def)
  have g2: "globalCollider touchR = Inr (Rectangle ?r)"
    by (simp add: globalCollider_def touchR_def new_RectangleActor_def translate_def
          new_RectangleCollider_def double_sums)
  have t2: "Collider.type ?r = ''rectangle''"
    by (simp add: new_RectangleCollider_def)
  from detect_rectangles_iff[OF g1 t1 g2 t2] have "detectCollision touchL touchR = Inr False"
    by (simp add: get_left_def get_right_def get_top_def get_bottom_def near_box_def
          new_RectangleCollider_def double_sums double_less)
  with g1 t1 g2 t2 show ?thesis
    by blast
qed





subsection \<open>The world\<close>

text \<open>What \<open>World.update\<close> does to the example world, by evaluation.\<close>

lemma world3_update:
  "World_update world3
     = Inr (world3\<lparr>World.actors := [hit movedA movedB, hit movedB movedA, movedC]\<rparr>, trace3)"
  by (simp add: World_update_def hitTest_def hitTest_outer.simps hitTest_inner.simps
        hitTest_body_def detectCollision_def detectRectangleCollision_def globalCollider_def
        translate_def new_RectangleCollider_def get_top_def get_bottom_def get_left_def
        get_right_def update_def hit_def World_info_def world3_def addActor_def new_World_def
        actorA_def actorB_def actorC_def new_RectangleActor_def movedA_def movedB_def
        movedC_def trace3_def Let_def double_sums double_less)

lemma world3_actors: "World.actors world3 = [actorA, actorB, actorC]"
  by (simp add: world3_def addActor_def new_World_def)





text \<open>
  C5. \<open>update\<close> leaves the colour at \<^verbatim>\<open>rgb(0, 0, 0)\<close> and \<open>hit\<close> leaves it at
  \<^verbatim>\<open>rgb(255, 0, 0)\<close>; after \<open>World.update\<close> an actor has the second colour if
  \<open>hit\<close> was called on it during the sweep of that call, and the first if not.
\<close>

theorem collision_flag_two_states:
  assumes "World_update w = Inr (w', tr)" and "k < length (World.actors w)"
  shows "RectangleActor.color (update info a) = ''rgb(0, 0, 0)''
         \<and> RectangleActor.color (hit a other) = ''rgb(255, 0, 0)''
         \<and> length (World.actors w') = length (World.actors w)
         \<and> RectangleActor.color (World.actors w' ! k)
             = (if k \<in> set (hit_receivers tr) then ''rgb(255, 0, 0)'' else ''rgb(0, 0, 0)'')"
proof -
  let ?as1 = "map (update (World_info w)) (World.actors w)"
  from assms(1) have "hitTest (w\<lparr>World.actors := ?as1\<rparr>) = Inr (w', tr)"
    by (simp add: World_update_unfold)
  from hitTest_Inr[OF this] have inv: "sweep_inv ?as1 (World.actors w', tr)"
    by simp
  then have len: "length (World.actors w') = length (World.actors w)"
    by (simp add: sweep_inv_def)
  from inv assms(2)
  have "World.actors w' ! k
          = (if k \<in> set (hit_receivers tr) then hit (?as1 ! k) (?as1 ! k) else ?as1 ! k)"
    by (simp add: sweep_inv_def)
  with assms(2)
  have "RectangleActor.color (World.actors w' ! k)
          = (if k \<in> set (hit_receivers tr) then ''rgb(255, 0, 0)'' else ''rgb(0, 0, 0)'')"
    by (simp add: update_fields)
  with len show ?thesis
    by (simp add: update_fields)
qed

theorem collision_flag_two_states_witness:
  "World_update world3
     = Inr (world3\<lparr>World.actors := [hit movedA movedB, hit movedB movedA, movedC]\<rparr>, trace3)
   \<and> 2 < length (World.actors world3)
   \<and> hit_receivers trace3 = [0, 1]
   \<and> RectangleActor.color
        (World.actors (world3\<lparr>World.actors := [hit movedA movedB, hit movedB movedA, movedC]\<rparr>) ! 2)
       = ''rgb(0, 0, 0)''"
proof -
  have k: "2 < length (World.actors world3)"
    by (simp add: world3_actors)
  have r: "hit_receivers trace3 = [0, 1]"
    by (simp add: trace3_def)
  from collision_flag_two_states[where info = info500 and a = actorA and other = actorB,
      OF world3_update k] world3_update k r show ?thesis
    by simp
qed

end
